theory Spec2Isabelle
  imports Complex_Main
begin

section \<open>Preculture dilution on a two-pipette robot\<close>

text \<open>
  The repository holds two protocol scripts, \<^verbatim>\<open>preculture_dilution.py\<close> and
  \<^verbatim>\<open>preculture_dilution_by_pipette.py\<close>. Both read a plate of optical densities,
  compute per well how much preculture and how much medium go into the target plate, and
  drive two pipettes. Definitions of the first script carry the prefix \<open>pd_\<close>, those of
  the second the prefix \<open>bp_\<close>; what the two scripts share word for word has no prefix.

  Numbers: the scripts compute with Python floats. The specification's data model speaks of
  real numbers, and the embedding follows it: a value is a \<^typ>\<open>real\<close>, arithmetic is exact,
  and there is no NaN. Division by zero is the one place where Python floats and HOL's reals
  part ways visibly (Python raises, HOL returns \<open>0\<close>), so it is an explicit error branch.
\<close>

subsection \<open>Module constants and labels\<close>

definition target_OD :: real where
  "target_OD = 0.05"

definition target_volume :: real where
  "target_volume = 150"

text \<open>\<^verbatim>\<open>rows = [chr(x) for x in range(ord("A"), ord("H")+1)]\<close> and
  \<^verbatim>\<open>cols = list(range(12))\<close>.\<close>

definition rows :: "char list" where
  "rows = map char_of [65..<73::nat]"

definition cols :: "nat list" where
  "cols = [0..<12]"

text \<open>\<^verbatim>\<open>p300_min_transfer_volume = 30\<close>, local to \<^verbatim>\<open>run\<close> in both scripts.\<close>

definition p300_min_transfer_volume :: real where
  "p300_min_transfer_volume = 30"

subsection \<open>Data frames\<close>

text \<open>
  After \<^verbatim>\<open>.loc[rows, cols]\<close> a frame has exactly the row labels \<open>A\<close> to \<open>H\<close> and the
  column labels \<open>0\<close> to \<open>11\<close>. A frame is modelled by the value it holds at each label pair;
  the program reads it at the pairs of \<open>rows\<close> and \<open>cols\<close> only (\<open>labels\<close> lists them
  row by row, the order of the nested \<^verbatim>\<open>for row in rows: for col in cols\<close>), and every
  frame-wide operation below looks at those pairs only.
\<close>

type_synonym cell = "char \<times> nat"

type_synonym frame = "cell \<Rightarrow> real"

definition labels :: "cell list" where
  "labels = List.product rows cols"

text \<open>pandas visits a frame column by column in \<^verbatim>\<open>applymap\<close>.\<close>

definition labels_by_column :: "cell list" where
  "labels_by_column = concat (map (\<lambda>col. map (\<lambda>row. (row, col)) rows) cols)"

datatype error = ValueError string | ZeroDivisionError | TypeError string

text \<open>\<^verbatim>\<open>np.any(b)\<close> for a frame \<open>b\<close> of booleans.\<close>

definition np_any :: "(cell \<Rightarrow> bool) \<Rightarrow> bool" where
  "np_any b = list_ex b labels"

text \<open>\<^verbatim>\<open>df.applymap(f)\<close>: \<open>f\<close> is called on every cell with a Python float; the first
  call that raises ends the whole operation with that exception.\<close>

definition applymap :: "(real \<Rightarrow> error + real) \<Rightarrow> frame \<Rightarrow> error + frame" where
  "applymap f df =
     (case List.find (\<lambda>cell. isl (f (df cell))) labels_by_column of
        Some cell \<Rightarrow> Inl (projl (f (df cell)))
      | None \<Rightarrow> Inr (\<lambda>cell. projr (f (df cell))))"

text \<open>\<^verbatim>\<open>df.where(cond, other=v)\<close>: keep the cell where \<open>cond\<close> holds, put \<open>v\<close> elsewhere.\<close>

definition df_where :: "(cell \<Rightarrow> bool) \<Rightarrow> real \<Rightarrow> frame \<Rightarrow> frame" where
  "df_where cond other df = (\<lambda>cell. if cond cell then df cell else other)"

subsection \<open>The planner: \<^verbatim>\<open>process_OD_inputs\<close>\<close>

text \<open>
  \<^verbatim>\<open>transfer_volume = target_volume * target_OD / preculture_OD\<close>. The argument is a
  Python float, so a zero raises \<^verbatim>\<open>ZeroDivisionError\<close>.
\<close>

definition get_transfer_volume :: "real \<Rightarrow> error + real" where
  "get_transfer_volume preculture_OD =
     (if preculture_OD = 0 then Inl ZeroDivisionError
      else Inr (target_volume * target_OD / preculture_OD))"

text \<open>
  The result of the planner is the warning that was printed or not, the frame of preculture
  volumes and the frame of medium volumes. Reading the spreadsheet is outside the model: the
  argument is the frame \<^verbatim>\<open>preculture_ODs\<close> as read.
\<close>

definition pd_process_OD_inputs :: "frame \<Rightarrow> error + bool \<times> frame \<times> frame" where
  "pd_process_OD_inputs preculture_ODs =
     (let warning = np_any (\<lambda>cell. preculture_ODs cell < target_OD) in
      case applymap get_transfer_volume preculture_ODs of
        Inl e \<Rightarrow> Inl e
      | Inr preculture_transfer_volumes \<Rightarrow>
          let media_tranfer_volumes = (\<lambda>cell. target_volume - preculture_transfer_volumes cell);
              media_tranfer_volumes =
                df_where (\<lambda>cell. media_tranfer_volumes cell > 0) 0 media_tranfer_volumes
          in Inr (warning, preculture_transfer_volumes, media_tranfer_volumes))"

text \<open>The second script checks for negative readings first.\<close>

definition bp_process_OD_inputs :: "frame \<Rightarrow> error + bool \<times> frame \<times> frame" where
  "bp_process_OD_inputs preculture_ODs =
     (if np_any (\<lambda>cell. preculture_ODs cell < 0)
      then Inl (ValueError ''preculture OD below 0'')
      else
        let warning = np_any (\<lambda>cell. preculture_ODs cell < target_OD) in
        case applymap get_transfer_volume preculture_ODs of
          Inl e \<Rightarrow> Inl e
        | Inr preculture_transfer_volumes \<Rightarrow>
            let media_tranfer_volumes = (\<lambda>cell. target_volume - preculture_transfer_volumes cell);
                media_tranfer_volumes =
                  df_where (\<lambda>cell. media_tranfer_volumes cell > 0) 0 media_tranfer_volumes
            in Inr (warning, preculture_transfer_volumes, media_tranfer_volumes))"

text \<open>The specification files both exceptions of the planner under \<open>InvalidMeasurement\<close>:
  a negative reading, and a zero reading "causing division failure".\<close>

definition InvalidMeasurement :: "error \<Rightarrow> bool" where
  "InvalidMeasurement e = (e = ValueError ''preculture OD below 0'' \<or> e = ZeroDivisionError)"

subsection \<open>The robot\<close>

datatype pipette = pipette_p10 | pipette_p300

datatype tip_policy = never | always

datatype labware = preculture_wells | target_wells | media_wells

type_synonym well = "labware \<times> cell"

text \<open>
  What the robot is asked to do, in order. A transfer with a fresh tip is, on the robot, a
  tip pick-up, the liquid movement and a tip drop; the trace records the three.
\<close>

datatype action =
    Set_rail_lights bool
  | Load_labware string nat
  | Load_instrument string string
  | Pick_up_tip pipette
  | Drop_tip pipette
  | Transfer pipette real well well
  | Home

record robot =
  has_tip :: "pipette \<Rightarrow> bool"
  trace :: "action list"

definition fresh_robot :: robot where
  "fresh_robot = \<lparr>has_tip = (\<lambda>p. False), trace = []\<rparr>"

definition perform :: "action \<Rightarrow> robot \<Rightarrow> robot" where
  "perform a s = s\<lparr>trace := trace s @ [a]\<rparr>"

text \<open>Modelled from the spec: the robot's programming interface is not part of the
  sources. The specification lists its operations: \<open>pickUpTip\<close> and \<open>dropTip\<close> acquire and
  release the tip of one pipette. Whether a pipette holds a tip is, in the robot's interface,
  the boolean attribute \<^verbatim>\<open>has_tip\<close> of the pipette (a property); it is the field
  \<open>has_tip\<close> of the state here.\<close>

definition pick_up_tip :: "pipette \<Rightarrow> robot \<Rightarrow> robot" where
  "pick_up_tip p s = perform (Pick_up_tip p) (s\<lparr>has_tip := (has_tip s)(p := True)\<rparr>)"

definition drop_tip :: "pipette \<Rightarrow> robot \<Rightarrow> robot" where
  "drop_tip p s = perform (Drop_tip p) (s\<lparr>has_tip := (has_tip s)(p := False)\<rparr>)"

text \<open>Modelled from the spec: \<open>transfer(volume, sourceWell, targetWell, tipMode)\<close> moves the
  volume; with tip mode "always" it acquires and releases a tip around the movement, with
  "never" it uses whatever the pipette holds.\<close>

definition transfer :: "pipette \<Rightarrow> real \<Rightarrow> well \<Rightarrow> well \<Rightarrow> tip_policy \<Rightarrow> robot \<Rightarrow> robot" where
  "transfer p volume source target new_tip s =
     (case new_tip of
        never \<Rightarrow> perform (Transfer p volume source target) s
      | always \<Rightarrow> drop_tip p (perform (Transfer p volume source target) (pick_up_tip p s)))"

subsection \<open>\<^verbatim>\<open>run\<close> of \<^verbatim>\<open>preculture_dilution.py\<close>\<close>

text \<open>Rail lights on, then five plates and two pipettes are loaded.\<close>

definition pd_load_hardware :: "robot \<Rightarrow> robot" where
  "pd_load_hardware s =
     (let s = perform (Set_rail_lights True) s;
          s = perform (Load_labware ''corning_96_wellplate_360ul_flat'' 2) s;
          s = perform (Load_labware ''corning_96_wellplate_360ul_flat'' 1) s;
          s = perform (Load_labware ''corning_96_wellplate_360ul_flat'' 4) s;
          s = perform (Load_labware ''opentrons_96_tiprack_20ul'' 5) s;
          s = perform (Load_labware ''opentrons_96_tiprack_300ul'' 3) s;
          s = perform (Load_instrument ''p10_single'' ''left'') s;
          s = perform (Load_instrument ''p300_single'' ''right'') s
      in s)"

text \<open>The pipette of the medium loop,
  \<^verbatim>\<open>pipette_p300 if media_volume >= p300_min_transfer_volume else pipette_p10\<close>, and of the
  preculture loop,
  \<^verbatim>\<open>pipette_p300 if preculture_volume > p300_min_transfer_volume else pipette_p10\<close>.\<close>

definition pd_media_pipette :: "real \<Rightarrow> pipette" where
  "pd_media_pipette media_volume =
     (if media_volume \<ge> p300_min_transfer_volume then pipette_p300 else pipette_p10)"

definition pd_preculture_pipette :: "real \<Rightarrow> pipette" where
  "pd_preculture_pipette preculture_volume =
     (if preculture_volume > p300_min_transfer_volume then pipette_p300 else pipette_p10)"

text \<open>The body of the medium loop for one well.\<close>

definition pd_media_step :: "frame \<Rightarrow> char \<Rightarrow> nat \<Rightarrow> robot \<Rightarrow> robot" where
  "pd_media_step media_tranfer_volumes row col s =
     (let media_volume = media_tranfer_volumes (row, col) in
      if media_volume \<le> 0 then s
      else transfer (pd_media_pipette media_volume) media_volume
             (media_wells, (row, col)) (target_wells, (row, col)) never s)"

text \<open>
  Lines 92 and 93 read \<^verbatim>\<open>if pipette_p10.has_tip(): pipette_p10.drop_tip()\<close>: the boolean
  \<^verbatim>\<open>has_tip\<close> is looked up and then called. Calling a boolean raises
  \<^verbatim>\<open>TypeError: 'bool' object is not callable\<close>, whatever its value. (Line 108 of the
  second script reads the attribute without calling it.)
\<close>

definition call_bool :: "bool \<Rightarrow> error + bool" where
  "call_bool b = Inl (TypeError ''bool object is not callable'')"

text \<open>Lines 60 to 93: tips are picked up before the loop; the lines after it are written
  to drop them. The result is the exception raised, if any, and the robot.\<close>

definition pd_distribute_medium :: "frame \<Rightarrow> robot \<Rightarrow> error option \<times> robot" where
  "pd_distribute_medium media_tranfer_volumes s =
     (let s = (if np_any (\<lambda>cell. media_tranfer_volumes cell < p300_min_transfer_volume)
               then pick_up_tip pipette_p10 s else s);
          s = (if np_any (\<lambda>cell. media_tranfer_volumes cell \<ge> p300_min_transfer_volume)
               then pick_up_tip pipette_p300 s else s);
          s = fold (\<lambda>row. fold (\<lambda>col. pd_media_step media_tranfer_volumes row col) cols) rows s
      in
      case call_bool (has_tip s pipette_p10) of
        Inl e \<Rightarrow> (Some e, s)
      | Inr held \<Rightarrow>
          let s = (if held then drop_tip pipette_p10 s else s) in
          (case call_bool (has_tip s pipette_p300) of
             Inl e \<Rightarrow> (Some e, s)
           | Inr held \<Rightarrow> (None, if held then drop_tip pipette_p300 s else s)))"

text \<open>The body of the preculture loop for one well.\<close>

definition pd_preculture_step :: "frame \<Rightarrow> char \<Rightarrow> nat \<Rightarrow> robot \<Rightarrow> robot" where
  "pd_preculture_step preculture_transfer_volumes row col s =
     (let preculture_volume = preculture_transfer_volumes (row, col) in
      if preculture_volume \<le> 0 then s
      else
        let p = pd_preculture_pipette preculture_volume in
        if preculture_volume > 0
        then transfer p preculture_volume
               (preculture_wells, (row, col)) (target_wells, (row, col)) always s
        else s)"

definition pd_transfer_preculture :: "frame \<Rightarrow> robot \<Rightarrow> robot" where
  "pd_transfer_preculture preculture_transfer_volumes s =
     fold (\<lambda>row. fold (\<lambda>col. pd_preculture_step preculture_transfer_volumes row col) cols) rows s"

text \<open>The whole run, from a robot that holds no tip and has done nothing. The result is
  the exception that ended the run, if any, and the robot as the run left it.\<close>

definition pd_run :: "frame \<Rightarrow> error option \<times> robot" where
  "pd_run preculture_ODs =
     (let s = pd_load_hardware fresh_robot in
      case pd_process_OD_inputs preculture_ODs of
        Inl e \<Rightarrow> (Some e, s)
      | Inr (warning, preculture_transfer_volumes, media_tranfer_volumes) \<Rightarrow>
          (case pd_distribute_medium media_tranfer_volumes s of
             (Some e, s) \<Rightarrow> (Some e, s)
           | (None, s) \<Rightarrow>
               let s = pd_transfer_preculture preculture_transfer_volumes s;
                   s = perform (Set_rail_lights False) s
               in (None, s)))"

subsection \<open>\<^verbatim>\<open>run\<close> of \<^verbatim>\<open>preculture_dilution_by_pipette.py\<close>\<close>

definition bp_load_hardware :: "robot \<Rightarrow> robot" where
  "bp_load_hardware s =
     (let s = perform (Set_rail_lights True) s;
          s = perform (Load_labware ''corning_96_wellplate_360ul_flat'' 2) s;
          s = perform (Load_labware ''corning_96_wellplate_360ul_flat'' 1) s;
          s = perform (Load_labware ''corning_96_wellplate_360ul_flat'' 4) s;
          s = perform (Load_labware ''opentrons_96_tiprack_20ul'' 5) s;
          s = perform (Load_labware ''opentrons_96_tiprack_300ul'' 3) s;
          s = perform (Load_labware ''opentrons_96_tiprack_300ul'' 6) s;
          s = perform (Load_instrument ''p10_single'' ''left'') s;
          s = perform (Load_instrument ''p300_single'' ''right'') s
      in s)"

text \<open>
  The two lambdas of \<^verbatim>\<open>transfer_to_target\<close>, applied to one volume (line 95):
  \<^verbatim>\<open>0 < volume <= p300_min_transfer_volume\<close> for the small pipette and
  \<^verbatim>\<open>p300_min_transfer_volume < volume\<close> for the large one.
\<close>

fun pipette_applicable :: "pipette \<Rightarrow> real \<Rightarrow> bool" where
  "pipette_applicable pipette_p10 volume = (0 < volume \<and> volume \<le> p300_min_transfer_volume)"
| "pipette_applicable pipette_p300 volume = (p300_min_transfer_volume < volume)"

text \<open>
  The same lambdas applied to the whole frame, under \<^verbatim>\<open>np.any\<close> (line 82). For the large
  pipette \<^verbatim>\<open>p300_min_transfer_volume < volumes\<close> is a frame of booleans and \<^verbatim>\<open>np.any\<close>
  tells whether one is true. For the small pipette Python reads the chained comparison
  \<^verbatim>\<open>0 < volumes <= p300_min_transfer_volume\<close> as
  \<^verbatim>\<open>(0 < volumes) and (volumes <= p300_min_transfer_volume)\<close>; \<^verbatim>\<open>and\<close> asks for the truth
  value of the frame \<^verbatim>\<open>0 < volumes\<close>, and pandas answers that request with
  \<^verbatim>\<open>ValueError: The truth value of a DataFrame is ambiguous\<close>, whatever the frame holds.
\<close>

fun any_pipette_applicable :: "pipette \<Rightarrow> frame \<Rightarrow> error + bool" where
  "any_pipette_applicable pipette_p10 volumes =
     Inl (ValueError ''The truth value of a DataFrame is ambiguous'')"
| "any_pipette_applicable pipette_p300 volumes =
     Inr (np_any (\<lambda>cell. p300_min_transfer_volume < volumes cell))"

text \<open>The body of the inner loops for one well (lines 93 to 106).\<close>

definition bp_step :: "pipette \<Rightarrow> frame \<Rightarrow> labware \<Rightarrow> tip_policy \<Rightarrow> char \<Rightarrow> nat \<Rightarrow> robot \<Rightarrow> robot" where
  "bp_step pipette volumes source_wells new_tip row col s =
     (let volume = volumes (row, col) in
      if \<not> pipette_applicable pipette volume then s
      else transfer pipette volume (source_wells, (row, col)) (target_wells, (row, col)) new_tip s)"

text \<open>One pipette's pass once the check of line 82 has let it through (lines 87 to 109).\<close>

definition bp_pass :: "pipette \<Rightarrow> frame \<Rightarrow> labware \<Rightarrow> tip_policy \<Rightarrow> robot \<Rightarrow> robot" where
  "bp_pass pipette volumes source_wells new_tip s =
     (let s = (if new_tip = never then pick_up_tip pipette s else s);
          s = fold (\<lambda>row. fold (\<lambda>col. bp_step pipette volumes source_wells new_tip row col) cols) rows s;
          s = (if has_tip s pipette then drop_tip pipette s else s)
      in s)"

text \<open>The body of \<^verbatim>\<open>for pipette in [pipette_p10, pipette_p300]\<close> and the loop itself. An
  exception leaves the loop and the function.\<close>

definition bp_pipette_iteration ::
  "pipette \<Rightarrow> frame \<Rightarrow> labware \<Rightarrow> tip_policy \<Rightarrow> robot \<Rightarrow> error option \<times> robot" where
  "bp_pipette_iteration pipette volumes source_wells new_tip s =
     (case any_pipette_applicable pipette volumes of
        Inl e \<Rightarrow> (Some e, s)
      | Inr applicable \<Rightarrow>
          if \<not> applicable then (None, s)
          else (None, bp_pass pipette volumes source_wells new_tip s))"

fun bp_for_pipettes ::
  "pipette list \<Rightarrow> frame \<Rightarrow> labware \<Rightarrow> tip_policy \<Rightarrow> robot \<Rightarrow> error option \<times> robot" where
  "bp_for_pipettes [] volumes source_wells new_tip s = (None, s)"
| "bp_for_pipettes (pipette # pipettes) volumes source_wells new_tip s =
     (case bp_pipette_iteration pipette volumes source_wells new_tip s of
        (Some e, s') \<Rightarrow> (Some e, s')
      | (None, s') \<Rightarrow> bp_for_pipettes pipettes volumes source_wells new_tip s')"

definition transfer_to_target :: "frame \<Rightarrow> labware \<Rightarrow> tip_policy \<Rightarrow> robot \<Rightarrow> error option \<times> robot" where
  "transfer_to_target volumes source_wells new_tip s =
     bp_for_pipettes [pipette_p10, pipette_p300] volumes source_wells new_tip s"

definition bp_run :: "frame \<Rightarrow> error option \<times> robot" where
  "bp_run preculture_ODs =
     (let s = bp_load_hardware fresh_robot in
      case bp_process_OD_inputs preculture_ODs of
        Inl e \<Rightarrow> (Some e, s)
      | Inr (warning, preculture_transfer_volumes, media_tranfer_volumes) \<Rightarrow>
          (case transfer_to_target media_tranfer_volumes media_wells never s of
             (Some e, s) \<Rightarrow> (Some e, s)
           | (None, s) \<Rightarrow>
               (case transfer_to_target preculture_transfer_volumes preculture_wells always s of
                  (Some e, s) \<Rightarrow> (Some e, s)
                | (None, s) \<Rightarrow>
                    let s = perform Home s;
                        s = perform (Set_rail_lights False) s
                    in (None, s))))"

subsection \<open>Reading a trace\<close>

text \<open>The tip actions of a trace, replayed from a set of pipettes that hold a tip: a
  pick-up needs the pipette to hold none, a drop needs it to hold one. The result is the
  set of pipettes holding a tip at the end, or \<open>None\<close> when some action broke the rule.\<close>

fun tip_sessions :: "pipette set \<Rightarrow> action list \<Rightarrow> pipette set option" where
  "tip_sessions held [] = Some held"
| "tip_sessions held (Pick_up_tip p # as) =
     (if p \<in> held then None else tip_sessions (insert p held) as)"
| "tip_sessions held (Drop_tip p # as) =
     (if p \<in> held then tip_sessions (held - {p}) as else None)"
| "tip_sessions held (a # as) = tip_sessions held as"

text \<open>The liquid movements of a trace, those out of one plate, the wells they leave
  from, and the actions that concern a tip or a well.\<close>

fun is_transfer :: "action \<Rightarrow> bool" where
  "is_transfer (Transfer p v source target) = True"
| "is_transfer a = False"

fun is_transfer_from :: "labware \<Rightarrow> action \<Rightarrow> bool" where
  "is_transfer_from plate (Transfer p v source target) = (fst source = plate)"
| "is_transfer_from plate a = False"

fun is_well_action :: "action \<Rightarrow> bool" where
  "is_well_action (Pick_up_tip p) = True"
| "is_well_action (Drop_tip p) = True"
| "is_well_action (Transfer p v source target) = True"
| "is_well_action a = False"

fun dispatched_cells :: "action list \<Rightarrow> cell list" where
  "dispatched_cells [] = []"
| "dispatched_cells (Transfer p v source target # as) = snd source # dispatched_cells as"
| "dispatched_cells (a # as) = dispatched_cells as"

text \<open>The transfer each loop asks for at one well.\<close>

definition pd_media_task :: "frame \<Rightarrow> cell \<Rightarrow> action" where
  "pd_media_task media_tranfer_volumes cell =
     Transfer (pd_media_pipette (media_tranfer_volumes cell)) (media_tranfer_volumes cell)
       (media_wells, cell) (target_wells, cell)"

definition pd_preculture_task :: "frame \<Rightarrow> cell \<Rightarrow> action" where
  "pd_preculture_task preculture_transfer_volumes cell =
     Transfer (pd_preculture_pipette (preculture_transfer_volumes cell))
       (preculture_transfer_volumes cell) (preculture_wells, cell) (target_wells, cell)"

definition bp_task :: "pipette \<Rightarrow> frame \<Rightarrow> labware \<Rightarrow> cell \<Rightarrow> action" where
  "bp_task pipette volumes source_wells cell =
     Transfer pipette (volumes cell) (source_wells, cell) (target_wells, cell)"

text \<open>A transfer wrapped in a tip session of its own.\<close>

fun with_fresh_tip :: "action \<Rightarrow> action list" where
  "with_fresh_tip (Transfer p v source target) =
     [Pick_up_tip p, Transfer p v source target, Drop_tip p]"
| "with_fresh_tip a = [a]"

text \<open>The well \<open>A0\<close>, for concrete inputs.\<close>

definition A0 :: cell where
  "A0 = (CHR ''A'', 0)"

text \<open>Reading frames: every well at twice the target OD, one negative well, one zero
  well.\<close>

definition double_target_frame :: frame where
  "double_target_frame = (\<lambda>cell. 0.1)"

definition negative_frame :: frame where
  "negative_frame = (\<lambda>cell. 0.1)(A0 := - 1)"

definition zero_frame :: frame where
  "zero_frame = (\<lambda>cell. 0.1)(A0 := 0)"

section \<open>The planner\<close>

lemma rows_eval: "rows = ''ABCDEFGH''"
  unfolding rows_def by code_simp

lemma cols_eval: "cols = [0, 1, 2, 3, 4, 5, 6, 7, 8, 9, 10, 11]"
  by (simp add: cols_def upt_rec)

lemma set_labels_by_column: "set labels_by_column = set labels"
  by (auto simp: labels_def labels_by_column_def)

lemma np_any_iff: "np_any b \<longleftrightarrow> (\<exists>cell \<in> set labels. b cell)"
  by (simp add: np_any_def list_ex_iff)

lemma A0_label: "A0 \<in> set labels"
  by (simp add: A0_def labels_def rows_eval cols_eval)

lemma isl_get_transfer_volume: "isl (get_transfer_volume od) \<longleftrightarrow> od = 0"
  by (simp add: get_transfer_volume_def)

lemma projr_get_transfer_volume:
  "od \<noteq> 0 \<Longrightarrow> projr (get_transfer_volume od) = target_volume * target_OD / od"
  by (simp add: get_transfer_volume_def)

text \<open>\<^verbatim>\<open>applymap(get_transfer_volume)\<close> fails exactly when some reading is zero.\<close>

lemma applymap_get_transfer_volume:
  "applymap get_transfer_volume df =
     (if \<exists>cell \<in> set labels. df cell = 0 then Inl ZeroDivisionError
      else Inr (\<lambda>cell. projr (get_transfer_volume (df cell))))"
proof (cases "List.find (\<lambda>cell. isl (get_transfer_volume (df cell))) labels_by_column")
  case None
  then have "\<forall>cell \<in> set labels. df cell \<noteq> 0"
    by (auto simp: find_None_iff set_labels_by_column isl_get_transfer_volume)
  with None show ?thesis
    by (simp add: applymap_def)
next
  case (Some cell)
  then have "cell \<in> set labels_by_column" and "df cell = 0"
    by (auto simp: find_Some_iff isl_get_transfer_volume in_set_conv_nth)
  with Some show ?thesis
    by (auto simp: applymap_def get_transfer_volume_def set_labels_by_column)
qed

lemma pd_process_OD_inputs_eq:
  "pd_process_OD_inputs ods =
     (if \<exists>cell \<in> set labels. ods cell = 0 then Inl ZeroDivisionError
      else Inr (np_any (\<lambda>cell. ods cell < target_OD),
                (\<lambda>cell. projr (get_transfer_volume (ods cell))),
                (\<lambda>cell. max 0 (target_volume - projr (get_transfer_volume (ods cell))))))"
  by (auto simp: pd_process_OD_inputs_def applymap_get_transfer_volume df_where_def Let_def max_def)

lemma bp_process_OD_inputs_eq:
  "bp_process_OD_inputs ods =
     (if \<exists>cell \<in> set labels. ods cell < 0 then Inl (ValueError ''preculture OD below 0'')
      else pd_process_OD_inputs ods)"
  by (simp add: bp_process_OD_inputs_def pd_process_OD_inputs_def np_any_iff)

text \<open>
  C1. When every reading is strictly positive, both planners return, and at every label
  pair the preculture volume is \<open>target_volume * target_OD / OD\<close> and the medium volume is
  \<open>max 0 (target_volume - preculture volume)\<close>. The frames are read at the labels of the
  input: eight rows by twelve columns.
\<close>

theorem planner_volumes:
  assumes "\<forall>cell \<in> set labels. 0 < preculture_ODs cell"
  shows "\<exists>warning pre med.
           pd_process_OD_inputs preculture_ODs = Inr (warning, pre, med) \<and>
           bp_process_OD_inputs preculture_ODs = Inr (warning, pre, med) \<and>
           (\<forall>cell \<in> set labels.
              pre cell = target_volume * target_OD / preculture_ODs cell \<and>
              med cell = max 0 (target_volume - pre cell)) \<and>
           length rows = 8 \<and> length cols = 12"
proof -
  from assms have nz: "\<not> (\<exists>cell \<in> set labels. preculture_ODs cell = 0)"
    and nn: "\<not> (\<exists>cell \<in> set labels. preculture_ODs cell < 0)"
    by fastforce+
  have "\<forall>cell \<in> set labels. projr (get_transfer_volume (preculture_ODs cell)) =
          target_volume * target_OD / preculture_ODs cell"
    using nz by (simp add: projr_get_transfer_volume)
  then show ?thesis
    using nz nn by (simp add: bp_process_OD_inputs_eq pd_process_OD_inputs_eq rows_eval cols_eval)
qed

theorem planner_volumes_witness:
  "\<exists>warning pre med.
     pd_process_OD_inputs (\<lambda>cell. 0.1) = Inr (warning, pre, med) \<and>
     bp_process_OD_inputs (\<lambda>cell. 0.1) = Inr (warning, pre, med) \<and>
     pre A0 = 75 \<and> med A0 = 75"
proof -
  have "\<forall>cell \<in> set labels. (0::real) < (\<lambda>cell. 0.1) cell" by simp
  from planner_volumes [OF this] A0_label show ?thesis
    by (fastforce simp: target_volume_def target_OD_def)
qed

text \<open>
  C10. When every reading is strictly positive, at every label pair the planned medium
  volume is not negative, preculture plus medium is the larger of the target volume and the
  preculture volume, and medium is planned exactly for the readings above the target OD.
\<close>

theorem planner_invariants:
  assumes "\<forall>cell \<in> set labels. 0 < preculture_ODs cell"
  shows "\<exists>warning pre med.
           pd_process_OD_inputs preculture_ODs = Inr (warning, pre, med) \<and>
           bp_process_OD_inputs preculture_ODs = Inr (warning, pre, med) \<and>
           (\<forall>cell \<in> set labels.
              0 \<le> med cell \<and>
              pre cell + med cell = max target_volume (pre cell) \<and>
              (0 < med cell \<longleftrightarrow> target_OD < preculture_ODs cell))"
proof -
  from assms have nz: "\<not> (\<exists>cell \<in> set labels. preculture_ODs cell = 0)"
    and nn: "\<not> (\<exists>cell \<in> set labels. preculture_ODs cell < 0)"
    by fastforce+
  have "0 < max 0 (target_volume - target_volume * target_OD / od) \<longleftrightarrow> target_OD < od"
    if "0 < od" for od
  proof -
    have "0 < max 0 (target_volume - target_volume * target_OD / od)
            \<longleftrightarrow> target_volume * target_OD / od < target_volume"
      by (auto simp: max_def)
    also have "\<dots> \<longleftrightarrow> target_OD < od"
      using that
      by (simp add: target_volume_def target_OD_def pos_divide_less_eq mult.commute)
    finally show ?thesis .
  qed
  with assms have "\<forall>cell \<in> set labels.
      (0 < max 0 (target_volume - projr (get_transfer_volume (preculture_ODs cell)))
         \<longleftrightarrow> target_OD < preculture_ODs cell)"
    using nz by (simp add: projr_get_transfer_volume)
  then show ?thesis
    using nz nn by (simp add: bp_process_OD_inputs_eq pd_process_OD_inputs_eq max_def)
qed

theorem planner_invariants_witness:
  "\<exists>warning pre med.
     pd_process_OD_inputs (\<lambda>cell. 0.5) = Inr (warning, pre, med) \<and>
     bp_process_OD_inputs (\<lambda>cell. 0.5) = Inr (warning, pre, med) \<and>
     0 \<le> med A0 \<and> pre A0 + med A0 = max target_volume (pre A0) \<and> 0 < med A0"
proof -
  have "\<forall>cell \<in> set labels. (0::real) < (\<lambda>cell. 0.5) cell" by simp
  from planner_invariants [OF this] A0_label show ?thesis
    by (fastforce simp: target_OD_def)
qed

section \<open>The traces of the dispatchers\<close>

text \<open>The nested loops over \<open>rows\<close> and \<open>cols\<close> visit the label pairs in the order of
  \<open>labels\<close>.\<close>

lemma fold_rows_cols:
  "fold (\<lambda>row. fold (\<lambda>col. f row col) cs) rs s =
   fold (\<lambda>(row, col). f row col) (List.product rs cs) s"
  by (induction rs arbitrary: s) (simp_all add: fold_map comp_def)

lemma perform_simps [simp]:
  "trace (perform a s) = trace s @ [a]"
  "has_tip (perform a s) = has_tip s"
  by (simp_all add: perform_def)

lemma pick_up_tip_simps [simp]:
  "trace (pick_up_tip p s) = trace s @ [Pick_up_tip p]"
  "has_tip (pick_up_tip p s) = (has_tip s)(p := True)"
  by (simp_all add: pick_up_tip_def)

lemma drop_tip_simps [simp]:
  "trace (drop_tip p s) = trace s @ [Drop_tip p]"
  "has_tip (drop_tip p s) = (has_tip s)(p := False)"
  by (simp_all add: drop_tip_def)

lemma transfer_never_simps [simp]:
  "trace (transfer p v a b never s) = trace s @ [Transfer p v a b]"
  "has_tip (transfer p v a b never s) = has_tip s"
  by (simp_all add: transfer_def)

lemma transfer_always_simps [simp]:
  "trace (transfer p v a b always s) = trace s @ with_fresh_tip (Transfer p v a b)"
  "has_tip (transfer p v a b always s) = (has_tip s)(p := False)"
  by (simp_all add: transfer_def)

lemma pd_media_loop:
  "trace (fold (\<lambda>(row, col). pd_media_step med row col) cs s) =
     trace s @ map (pd_media_task med) (filter (\<lambda>cell. 0 < med cell) cs)"
  "has_tip (fold (\<lambda>(row, col). pd_media_step med row col) cs s) = has_tip s"
  by (induction cs arbitrary: s) (auto simp: pd_media_step_def pd_media_task_def Let_def)

lemma pd_preculture_loop:
  "trace (fold (\<lambda>(row, col). pd_preculture_step pre row col) cs s) =
     trace s @ concat (map (\<lambda>cell. with_fresh_tip (pd_preculture_task pre cell))
                         (filter (\<lambda>cell. 0 < pre cell) cs))"
  by (induction cs arbitrary: s) (auto simp: pd_preculture_step_def pd_preculture_task_def Let_def)

lemma pd_distribute_medium_outcome:
  "fst (pd_distribute_medium med s) = Some (TypeError ''bool object is not callable'')"
  by (simp add: pd_distribute_medium_def call_bool_def Let_def)

lemma pd_distribute_medium_trace:
  "trace (snd (pd_distribute_medium med s)) =
     trace s
     @ (if np_any (\<lambda>cell. med cell < p300_min_transfer_volume) then [Pick_up_tip pipette_p10] else [])
     @ (if np_any (\<lambda>cell. med cell \<ge> p300_min_transfer_volume) then [Pick_up_tip pipette_p300] else [])
     @ map (pd_media_task med) (filter (\<lambda>cell. 0 < med cell) labels)"
  by (simp add: pd_distribute_medium_def call_bool_def fold_rows_cols pd_media_loop labels_def
      Let_def)

lemma pd_distribute_medium_has_tip:
  "has_tip (snd (pd_distribute_medium med s)) pipette_p10 =
     (np_any (\<lambda>cell. med cell < p300_min_transfer_volume) \<or> has_tip s pipette_p10)"
  "has_tip (snd (pd_distribute_medium med s)) pipette_p300 =
     (np_any (\<lambda>cell. med cell \<ge> p300_min_transfer_volume) \<or> has_tip s pipette_p300)"
  by (simp_all add: pd_distribute_medium_def call_bool_def fold_rows_cols pd_media_loop Let_def)

lemma pd_transfer_preculture_trace:
  "trace (pd_transfer_preculture pre s) =
     trace s @ concat (map (\<lambda>cell. with_fresh_tip (pd_preculture_task pre cell))
                         (filter (\<lambda>cell. 0 < pre cell) labels))"
  by (simp add: pd_transfer_preculture_def fold_rows_cols pd_preculture_loop labels_def)

lemma fresh_robot_simps [simp]:
  "trace fresh_robot = []" "has_tip fresh_robot p = False"
  by (simp_all add: fresh_robot_def)

lemma pd_load_hardware_simps:
  "trace (pd_load_hardware s) = trace s @
     [Set_rail_lights True,
      Load_labware ''corning_96_wellplate_360ul_flat'' 2,
      Load_labware ''corning_96_wellplate_360ul_flat'' 1,
      Load_labware ''corning_96_wellplate_360ul_flat'' 4,
      Load_labware ''opentrons_96_tiprack_20ul'' 5,
      Load_labware ''opentrons_96_tiprack_300ul'' 3,
      Load_instrument ''p10_single'' ''left'',
      Load_instrument ''p300_single'' ''right'']"
  "has_tip (pd_load_hardware s) = has_tip s"
  by (simp_all add: pd_load_hardware_def)

lemma bp_load_hardware_simps:
  "trace (bp_load_hardware s) = trace s @
     [Set_rail_lights True,
      Load_labware ''corning_96_wellplate_360ul_flat'' 2,
      Load_labware ''corning_96_wellplate_360ul_flat'' 1,
      Load_labware ''corning_96_wellplate_360ul_flat'' 4,
      Load_labware ''opentrons_96_tiprack_20ul'' 5,
      Load_labware ''opentrons_96_tiprack_300ul'' 3,
      Load_labware ''opentrons_96_tiprack_300ul'' 6,
      Load_instrument ''p10_single'' ''left'',
      Load_instrument ''p300_single'' ''right'']"
  "has_tip (bp_load_hardware s) = has_tip s"
  by (simp_all add: bp_load_hardware_def)

text \<open>A run of \<^verbatim>\<open>preculture_dilution.py\<close> whose planner returns stops at line 92, after
  the medium loop: the preculture loop and the switching off of the rail lights are never
  reached.\<close>

lemma pd_run_eq:
  "pd_run ods =
     (case pd_process_OD_inputs ods of
        Inl e \<Rightarrow> (Some e, pd_load_hardware fresh_robot)
      | Inr (warning, pre, med) \<Rightarrow>
          (Some (TypeError ''bool object is not callable''),
           snd (pd_distribute_medium med (pd_load_hardware fresh_robot))))"
proof (cases "pd_process_OD_inputs ods")
  case (Inl e)
  then show ?thesis by (simp add: pd_run_def)
next
  case (Inr r)
  obtain w pre med where r: "r = (w, pre, med)" by (cases r)
  obtain e s where d: "pd_distribute_medium med (pd_load_hardware fresh_robot) = (e, s)"
    by (cases "pd_distribute_medium med (pd_load_hardware fresh_robot)")
  with pd_distribute_medium_outcome [of med "pd_load_hardware fresh_robot"]
  have "e = Some (TypeError ''bool object is not callable'')" by simp
  with Inr r d show ?thesis by (simp add: pd_run_def)
qed

lemma pd_run_trace:
  "trace (snd (pd_run ods)) =
     trace (pd_load_hardware fresh_robot) @
     (case pd_process_OD_inputs ods of
        Inl e \<Rightarrow> []
      | Inr (warning, pre, med) \<Rightarrow>
          (if np_any (\<lambda>cell. med cell < p300_min_transfer_volume) then [Pick_up_tip pipette_p10] else [])
          @ (if np_any (\<lambda>cell. med cell \<ge> p300_min_transfer_volume) then [Pick_up_tip pipette_p300] else [])
          @ map (pd_media_task med) (filter (\<lambda>cell. 0 < med cell) labels))"
  by (simp add: pd_run_eq pd_distribute_medium_trace split: sum.splits prod.splits)

lemma pd_run_outcome:
  "fst (pd_run ods) =
     (case pd_process_OD_inputs ods of
        Inl e \<Rightarrow> Some e
      | Inr r \<Rightarrow> Some (TypeError ''bool object is not callable''))"
  by (simp add: pd_run_eq split: sum.splits prod.splits)

lemma transfer_to_target_fails:
  "transfer_to_target volumes source_wells new_tip s =
     (Some (ValueError ''The truth value of a DataFrame is ambiguous''), s)"
  by (simp add: transfer_to_target_def bp_pipette_iteration_def)

lemma bp_run_eq:
  "bp_run ods =
     (case bp_process_OD_inputs ods of
        Inl e \<Rightarrow> (Some e, bp_load_hardware fresh_robot)
      | Inr r \<Rightarrow> (Some (ValueError ''The truth value of a DataFrame is ambiguous''),
                  bp_load_hardware fresh_robot))"
  by (simp add: bp_run_def transfer_to_target_fails Let_def split: sum.splits prod.splits)

lemma bp_loop_never:
  "trace (fold (\<lambda>(row, col). bp_step p g src never row col) cs s) =
     trace s @ map (bp_task p g src) (filter (\<lambda>cell. pipette_applicable p (g cell)) cs)"
  "has_tip (fold (\<lambda>(row, col). bp_step p g src never row col) cs s) = has_tip s"
  by (induction cs arbitrary: s) (auto simp: bp_step_def bp_task_def Let_def)

lemma bp_loop_always:
  "trace (fold (\<lambda>(row, col). bp_step p g src always row col) cs s) =
     trace s @ concat (map (\<lambda>cell. with_fresh_tip (bp_task p g src cell))
                         (filter (\<lambda>cell. pipette_applicable p (g cell)) cs))"
  "\<not> has_tip s p \<Longrightarrow> \<not> has_tip (fold (\<lambda>(row, col). bp_step p g src always row col) cs s) p"
  by (induction cs arbitrary: s) (auto simp: bp_step_def bp_task_def Let_def)

lemma bp_pass_trace:
  assumes "\<not> has_tip s p"
  shows "trace (bp_pass p g src new_tip s) =
     trace s @
     (case new_tip of
        never \<Rightarrow> [Pick_up_tip p]
                 @ map (bp_task p g src) (filter (\<lambda>cell. pipette_applicable p (g cell)) labels)
                 @ [Drop_tip p]
      | always \<Rightarrow> concat (map (\<lambda>cell. with_fresh_tip (bp_task p g src cell))
                          (filter (\<lambda>cell. pipette_applicable p (g cell)) labels)))"
  using assms
  by (cases new_tip) (simp_all add: bp_pass_def fold_rows_cols bp_loop_never bp_loop_always labels_def Let_def)

lemma bp_loop_always_has_tip:
  "has_tip (fold (\<lambda>(row, col). bp_step p g src always row col) cs s) =
     (if filter (\<lambda>cell. pipette_applicable p (g cell)) cs = [] then has_tip s
      else (has_tip s)(p := False))"
  by (induction cs arbitrary: s) (auto simp: bp_step_def Let_def)

lemma bp_pass_has_tip: "has_tip (bp_pass p g src new_tip s) = (has_tip s)(p := False)"
  by (cases new_tip)
     (auto simp: bp_pass_def fold_rows_cols bp_loop_never bp_loop_always_has_tip Let_def fun_eq_iff)

lemma tip_sessions_append:
  "tip_sessions held (as @ bs) =
     (case tip_sessions held as of None \<Rightarrow> None | Some held' \<Rightarrow> tip_sessions held' bs)"
  by (induction held as rule: tip_sessions.induct) simp_all

lemma tip_sessions_transfers:
  "list_all is_transfer as \<Longrightarrow> tip_sessions held as = Some held"
proof (induction as)
  case Nil
  then show ?case by simp
next
  case (Cons a as)
  then show ?case by (cases a) simp_all
qed

lemma tip_sessions_fresh:
  "list_all is_transfer (map f cs) \<Longrightarrow>
     tip_sessions {} (concat (map (\<lambda>cell. with_fresh_tip (f cell)) cs)) = Some {}"
proof (induction cs)
  case Nil
  then show ?case by simp
next
  case (Cons c cs)
  then show ?case by (cases "f c") simp_all
qed

lemma is_transfer_tasks [simp]:
  "list_all is_transfer (map (pd_media_task med) cs)"
  "list_all is_transfer (map (pd_preculture_task pre) cs)"
  "list_all is_transfer (map (bp_task p g src) cs)"
  by (simp_all add: list_all_iff pd_media_task_def pd_preculture_task_def bp_task_def)

lemma bp_run_trace: "trace (snd (bp_run ods)) = trace (bp_load_hardware fresh_robot)"
  by (simp add: bp_run_eq split: sum.splits)

lemma bp_run_tips: "tip_sessions {} (trace (snd (bp_run ods))) = Some {}"
  by (simp add: bp_run_trace bp_load_hardware_simps)

lemma bp_pass_tips: "tip_sessions {} (trace (bp_pass p g src new_tip fresh_robot)) = Some {}"
  by (cases new_tip)
     (simp_all add: bp_pass_trace tip_sessions_append tip_sessions_transfers
        tip_sessions_fresh)

section \<open>Pipette choice\<close>

text \<open>
  C2. For every strictly positive volume exactly one of the two applicability predicates of
  \<^verbatim>\<open>transfer_to_target\<close> holds, with the threshold fixed at 30; the conditional
  expressions of \<^verbatim>\<open>preculture_dilution.py\<close> pick exactly one pipette as well.
\<close>

theorem pipette_coverage:
  assumes "0 < v"
  shows "(\<exists>!p. pipette_applicable p v) \<and>
         (pipette_applicable pipette_p10 v \<noteq> pipette_applicable pipette_p300 v) \<and>
         (\<exists>!p. pd_media_pipette v = p) \<and> (\<exists>!p. pd_preculture_pipette v = p) \<and>
         p300_min_transfer_volume = 30"
proof -
  have one: "pipette_applicable pipette_p10 v \<noteq> pipette_applicable pipette_p300 v"
    using assms by auto
  have "\<exists>!p. pipette_applicable p v"
  proof (cases "pipette_applicable pipette_p10 v")
    case True
    with one show ?thesis by (metis pipette.exhaust)
  next
    case False
    with one show ?thesis by (metis pipette.exhaust)
  qed
  with one show ?thesis by (simp add: p300_min_transfer_volume_def)
qed

theorem pipette_coverage_witness:
  "pipette_applicable pipette_p10 30 \<and> \<not> pipette_applicable pipette_p300 30 \<and>
   (\<exists>!p. pipette_applicable p 30)"
  using pipette_coverage [of 30] by (simp add: p300_min_transfer_volume_def)

section \<open>Tip sessions\<close>

lemma double_target_plan:
  "\<exists>w pre med.
     pd_process_OD_inputs double_target_frame = Inr (w, pre, med) \<and>
     bp_process_OD_inputs double_target_frame = Inr (w, pre, med) \<and>
     (\<forall>cell \<in> set labels. pre cell = 75 \<and> med cell = 75)"
proof -
  have "projr (get_transfer_volume (double_target_frame cell)) = 75" for cell
    by (simp add: get_transfer_volume_def double_target_frame_def target_OD_def
        target_volume_def)
  moreover have "\<not> (\<exists>cell \<in> set labels. double_target_frame cell = 0)"
    and "\<not> (\<exists>cell \<in> set labels. double_target_frame cell < 0)"
    by (simp_all add: double_target_frame_def)
  ultimately show ?thesis
    by (simp add: pd_process_OD_inputs_eq bp_process_OD_inputs_eq target_volume_def)
qed

text \<open>Whenever the planner returns, the run of \<^verbatim>\<open>preculture_dilution.py\<close> ends with a
  tip held: each medium volume is below the threshold or not, so one of the two pick-ups
  takes place, and no drop follows.\<close>

lemma pd_run_leaks:
  assumes "pd_process_OD_inputs ods = Inr r"
  shows "tip_sessions {} (trace (snd (pd_run ods))) \<noteq> Some {}"
proof -
  obtain w pre med where r: "r = (w, pre, med)" by (cases r)
  have "med A0 < p300_min_transfer_volume \<or> p300_min_transfer_volume \<le> med A0"
    by linarith
  with A0_label have
    "np_any (\<lambda>cell. med cell < p300_min_transfer_volume) \<or>
     np_any (\<lambda>cell. p300_min_transfer_volume \<le> med cell)"
    unfolding np_any_iff by blast
  then show ?thesis
    unfolding pd_run_trace assms r
    by (auto simp: pd_load_hardware_simps tip_sessions_append tip_sessions_transfers)
qed

text \<open>
  C3 fails for \<^verbatim>\<open>preculture_dilution.py\<close>. With every reading at \<open>0.1\<close> every well needs
  75 of medium, so the large pipette picks up a tip before the medium loop (line 68). After
  the loop line 92 calls the boolean \<^verbatim>\<open>has_tip\<close> and raises \<^verbatim>\<open>TypeError\<close>: the run ends
  there, the tip of the large pipette is still held, and no drop of it is in the trace.
\<close>

theorem tips_left_held:
  "fst (pd_run double_target_frame) = Some (TypeError ''bool object is not callable'') \<and>
   tip_sessions {} (trace (snd (pd_run double_target_frame))) = Some {pipette_p300} \<and>
   has_tip (snd (pd_run double_target_frame)) pipette_p300 \<and>
   Pick_up_tip pipette_p300 \<in> set (trace (snd (pd_run double_target_frame))) \<and>
   Drop_tip pipette_p300 \<notin> set (trace (snd (pd_run double_target_frame)))"
proof -
  from double_target_plan obtain w pre med where
    pd: "pd_process_OD_inputs double_target_frame = Inr (w, pre, med)" and
    vol: "\<forall>cell \<in> set labels. pre cell = 75 \<and> med cell = 75"
    by blast
  from vol have small: "\<not> np_any (\<lambda>cell. med cell < p300_min_transfer_volume)"
    by (simp add: np_any_iff p300_min_transfer_volume_def)
  have large: "np_any (\<lambda>cell. p300_min_transfer_volume \<le> med cell)"
    unfolding np_any_iff
  proof (rule bexI)
    show "p300_min_transfer_volume \<le> med A0"
      using vol A0_label by (simp add: p300_min_transfer_volume_def)
    show "A0 \<in> set labels" by (rule A0_label)
  qed
  have no_drop: "Drop_tip pipette_p300 \<noteq> pd_media_task med cell" for cell
    by (simp add: pd_media_task_def)
  from small large show ?thesis
    by (auto simp: pd_run_eq pd pd_distribute_medium_trace pd_distribute_medium_has_tip
        pd_load_hardware_simps tip_sessions_append tip_sessions_transfers no_drop)
qed

section \<open>Order of the transfers\<close>

lemma labels_row_major: "labels = concat (map (\<lambda>row. map (\<lambda>col. (row, col)) cols) rows)"
  by (simp add: labels_def List.product_concat_map comp_def)

lemma dispatched_cells_append:
  "dispatched_cells (as @ bs) = dispatched_cells as @ dispatched_cells bs"
  by (induction as rule: dispatched_cells.induct) simp_all

lemma dispatched_cells_media_tasks:
  "dispatched_cells (map (pd_media_task med) cs) = cs"
  by (induction cs) (simp_all add: pd_media_task_def)

text \<open>The medium loop of \<^verbatim>\<open>preculture_dilution.py\<close> does dispatch exactly the wells with a
  positive volume, in the order of \<open>labels\<close>: row by row from \<open>A\<close> to \<open>H\<close>, columns \<open>0\<close>
  to \<open>11\<close> within a row.\<close>

lemma pd_medium_row_major:
  "dispatched_cells (trace (snd (pd_distribute_medium med fresh_robot))) =
     filter (\<lambda>cell. 0 < med cell) labels"
  by (simp add: pd_distribute_medium_trace dispatched_cells_append dispatched_cells_media_tasks)

text \<open>
  C4 fails for \<^verbatim>\<open>preculture_dilution_by_pipette.py\<close>. With every reading at \<open>0.1\<close> both
  volume frames are positive in every well, so the transfers to dispatch are those of all
  of \<open>labels\<close>, from \<open>A0\<close> on. The run raises the \<^verbatim>\<open>ValueError\<close> of line 82 in the first
  call of \<^verbatim>\<open>transfer_to_target\<close> and dispatches no transfer at all.
\<close>

theorem nothing_dispatched:
  "fst (bp_run double_target_frame) =
     Some (ValueError ''The truth value of a DataFrame is ambiguous'') \<and>
   dispatched_cells (trace (snd (bp_run double_target_frame))) = [] \<and>
   (\<exists>warning pre med.
      bp_process_OD_inputs double_target_frame = Inr (warning, pre, med) \<and>
      filter (\<lambda>cell. 0 < med cell) labels = labels \<and>
      filter (\<lambda>cell. 0 < pre cell) labels = labels) \<and>
   A0 \<in> set labels"
proof -
  from double_target_plan obtain w pre med where
    bp: "bp_process_OD_inputs double_target_frame = Inr (w, pre, med)" and
    vol: "\<forall>cell \<in> set labels. pre cell = 75 \<and> med cell = 75"
    by blast
  from vol have "filter (\<lambda>cell. 0 < med cell) labels = labels"
    and "filter (\<lambda>cell. 0 < pre cell) labels = labels"
    by (simp_all add: filter_id_conv)
  with bp show ?thesis
    by (simp add: bp_run_eq bp_load_hardware_simps A0_label)
qed

section \<open>Rejected readings\<close>

text \<open>As written, \<^verbatim>\<open>run\<close> of \<^verbatim>\<open>preculture_dilution_by_pipette.py\<close> never completes:
  when the planner returns, the first call of \<^verbatim>\<open>transfer_to_target\<close> raises at line 82.\<close>

lemma bp_run_always_fails: "fst (bp_run ods) \<noteq> None"
  by (simp add: bp_run_eq split: sum.splits)

lemma bp_run_outcome:
  "fst (bp_run ods) =
     (case bp_process_OD_inputs ods of
        Inl e \<Rightarrow> Some e
      | Inr r \<Rightarrow> Some (ValueError ''The truth value of a DataFrame is ambiguous''))"
  by (simp add: bp_run_eq split: sum.splits)

lemma load_hardware_no_well_action:
  "filter is_well_action (trace (pd_load_hardware fresh_robot)) = []"
  "filter is_well_action (trace (bp_load_hardware fresh_robot)) = []"
  by (simp_all add: pd_load_hardware_simps bp_load_hardware_simps)

text \<open>
  C5. When some reading is exactly zero, the planner of either script raises an exception
  that the specification files under \<open>InvalidMeasurement\<close>, the run ends with it, and the
  trace of the run holds no tip pick-up, no tip drop and no transfer, for any well.
\<close>

theorem zero_reading_rejected:
  assumes "\<exists>cell \<in> set labels. preculture_ODs cell = 0"
  shows "(\<exists>e. pd_process_OD_inputs preculture_ODs = Inl e \<and> InvalidMeasurement e) \<and>
         (\<exists>e. bp_process_OD_inputs preculture_ODs = Inl e \<and> InvalidMeasurement e) \<and>
         (\<exists>e. fst (pd_run preculture_ODs) = Some e \<and> InvalidMeasurement e) \<and>
         (\<exists>e. fst (bp_run preculture_ODs) = Some e \<and> InvalidMeasurement e) \<and>
         filter is_well_action (trace (snd (pd_run preculture_ODs))) = [] \<and>
         filter is_well_action (trace (snd (bp_run preculture_ODs))) = []"
proof -
  have pd: "pd_process_OD_inputs preculture_ODs = Inl ZeroDivisionError"
    using assms by (simp add: pd_process_OD_inputs_eq)
  then have bp: "\<exists>e. bp_process_OD_inputs preculture_ODs = Inl e \<and> InvalidMeasurement e"
    by (simp add: bp_process_OD_inputs_eq InvalidMeasurement_def)
  from pd have "trace (snd (pd_run preculture_ODs)) = trace (pd_load_hardware fresh_robot)"
    by (simp add: pd_run_trace)
  with pd bp show ?thesis
    by (auto simp: pd_run_outcome bp_run_outcome bp_run_trace load_hardware_no_well_action
        InvalidMeasurement_def)
qed

lemma zero_frame_zero: "\<exists>cell \<in> set labels. zero_frame cell = 0"
  using A0_label by (auto simp: zero_frame_def)

theorem zero_reading_rejected_witness:
  "(\<exists>e. pd_process_OD_inputs zero_frame = Inl e \<and> InvalidMeasurement e) \<and>
   (\<exists>e. fst (bp_run zero_frame) = Some e \<and> InvalidMeasurement e) \<and>
   filter is_well_action (trace (snd (pd_run zero_frame))) = [] \<and>
   filter is_well_action (trace (snd (bp_run zero_frame))) = []"
  using zero_reading_rejected [OF zero_frame_zero] by blast

text \<open>
  C6, as the code has it. When some reading is negative, \<^verbatim>\<open>run\<close> of
  \<^verbatim>\<open>preculture_dilution_by_pipette.py\<close> ends with the \<^verbatim>\<open>ValueError\<close> of the planner,
  which the specification files under \<open>InvalidMeasurement\<close>. By then the robot has switched
  the rail lights on and loaded the plates, tip racks and pipettes, and nothing else: no
  tip pick-up, no tip drop, no transfer.
\<close>

theorem negative_reading_rejected:
  assumes "\<exists>cell \<in> set labels. preculture_ODs cell < 0"
  shows "fst (bp_run preculture_ODs) = Some (ValueError ''preculture OD below 0'') \<and>
         InvalidMeasurement (ValueError ''preculture OD below 0'') \<and>
         trace (snd (bp_run preculture_ODs)) = trace (bp_load_hardware fresh_robot) \<and>
         filter is_well_action (trace (snd (bp_run preculture_ODs))) = []"
  using assms
  by (simp add: bp_run_outcome bp_process_OD_inputs_eq bp_run_trace InvalidMeasurement_def
      load_hardware_no_well_action)

lemma negative_frame_negative: "\<exists>cell \<in> set labels. negative_frame cell < 0"
  using A0_label by (auto simp: negative_frame_def)

theorem negative_reading_rejected_witness:
  "fst (bp_run negative_frame) = Some (ValueError ''preculture OD below 0'') \<and>
   filter is_well_action (trace (snd (bp_run negative_frame))) = []"
  using negative_reading_rejected [OF negative_frame_negative] by blast

text \<open>
  C6 as stated fails: the failure does not come before every hardware action. With
  \<open>- 1\<close> in \<open>A0\<close> the run ends with the \<^verbatim>\<open>ValueError\<close>, and its trace is not empty: the
  rail lights were switched on and six pieces of labware and two pipettes were loaded.
\<close>

theorem negative_reading_counterexample:
  "fst (bp_run negative_frame) = Some (ValueError ''preculture OD below 0'') \<and>
   trace (snd (bp_run negative_frame)) \<noteq> [] \<and>
   trace (snd (bp_run negative_frame)) =
     [Set_rail_lights True,
      Load_labware ''corning_96_wellplate_360ul_flat'' 2,
      Load_labware ''corning_96_wellplate_360ul_flat'' 1,
      Load_labware ''corning_96_wellplate_360ul_flat'' 4,
      Load_labware ''opentrons_96_tiprack_20ul'' 5,
      Load_labware ''opentrons_96_tiprack_300ul'' 3,
      Load_labware ''opentrons_96_tiprack_300ul'' 6,
      Load_instrument ''p10_single'' ''left'',
      Load_instrument ''p300_single'' ''right'']"
  using negative_frame_negative
  by (simp add: bp_run_outcome bp_process_OD_inputs_eq bp_run_trace bp_load_hardware_simps)

section \<open>Scenarios\<close>

lemma target_OD_plan:
  assumes "\<forall>cell \<in> set labels. ods cell = target_OD"
  shows "\<exists>w pre med.
           pd_process_OD_inputs ods = Inr (w, pre, med) \<and>
           bp_process_OD_inputs ods = Inr (w, pre, med) \<and>
           (\<forall>cell \<in> set labels. pre cell = 150 \<and> med cell = 0)"
proof -
  from assms have nz: "\<not> (\<exists>cell \<in> set labels. ods cell = 0)"
    and nn: "\<not> (\<exists>cell \<in> set labels. ods cell < 0)"
    by (auto simp: target_OD_def)
  have "projr (get_transfer_volume target_OD) = 150"
    by (simp add: get_transfer_volume_def target_OD_def target_volume_def)
  with assms nz nn show ?thesis
    by (simp add: pd_process_OD_inputs_eq bp_process_OD_inputs_eq target_volume_def)
qed

text \<open>
  C8. When every reading equals \<open>target_OD\<close>, that is \<open>0.05\<close>, both planners give 150 as
  preculture volume and 0 as medium volume at every label pair, and the trace of either run
  holds no transfer out of the medium plate.
\<close>

theorem target_OD_scenario:
  assumes "\<forall>cell \<in> set labels. preculture_ODs cell = target_OD"
  shows "\<exists>warning pre med.
           pd_process_OD_inputs preculture_ODs = Inr (warning, pre, med) \<and>
           bp_process_OD_inputs preculture_ODs = Inr (warning, pre, med) \<and>
           (\<forall>cell \<in> set labels. pre cell = 150 \<and> med cell = 0) \<and>
           target_OD = 0.05 \<and>
           filter (is_transfer_from media_wells) (trace (snd (pd_run preculture_ODs))) = [] \<and>
           filter (is_transfer_from media_wells) (trace (snd (bp_run preculture_ODs))) = []"
proof -
  from target_OD_plan [OF assms] obtain w pre med where
    pd: "pd_process_OD_inputs preculture_ODs = Inr (w, pre, med)" and
    bp: "bp_process_OD_inputs preculture_ODs = Inr (w, pre, med)" and
    vol: "\<forall>cell \<in> set labels. pre cell = 150 \<and> med cell = 0"
    by blast
  from vol have "filter (\<lambda>cell. 0 < med cell) labels = []"
    by (simp add: filter_empty_conv)
  then have "filter (is_transfer_from media_wells) (trace (snd (pd_run preculture_ODs))) = []"
    by (simp add: pd_run_trace pd pd_load_hardware_simps)
  moreover have "filter (is_transfer_from media_wells) (trace (snd (bp_run preculture_ODs))) = []"
    by (simp add: bp_run_trace bp_load_hardware_simps)
  ultimately show ?thesis
    using pd bp vol by (simp add: target_OD_def)
qed

theorem target_OD_scenario_witness:
  "\<exists>warning pre med.
     pd_process_OD_inputs (\<lambda>cell. 0.05) = Inr (warning, pre, med) \<and>
     pre A0 = 150 \<and> med A0 = 0 \<and>
     filter (is_transfer_from media_wells) (trace (snd (pd_run (\<lambda>cell. 0.05)))) = []"
proof -
  have "\<forall>cell \<in> set labels. (\<lambda>cell. 0.05 :: real) cell = target_OD"
    by (simp add: target_OD_def)
  from target_OD_scenario [OF this] A0_label show ?thesis
    by fastforce
qed

text \<open>
  C7 fails for \<^verbatim>\<open>preculture_dilution.py\<close>. With every reading at \<open>target_OD\<close> the medium
  frame is zero everywhere: no well has anything to transfer, none satisfies the small
  pipette's predicate, and the run moves no medium. The check of line 62,
  \<^verbatim>\<open>np.any(media_tranfer_volumes < p300_min_transfer_volume)\<close>, counts the zero cells all the
  same, so the small pipette picks up a tip.
\<close>

theorem unused_tip_acquired:
  "target_OD = 0.05 \<and>
   (\<exists>warning pre med.
     pd_process_OD_inputs (\<lambda>cell. target_OD) = Inr (warning, pre, med) \<and>
     \<not> np_any (\<lambda>cell. 0 < med cell) \<and>
     \<not> np_any (\<lambda>cell. pipette_applicable pipette_p10 (med cell)) \<and>
     filter (is_transfer_from media_wells) (trace (snd (pd_run (\<lambda>cell. target_OD)))) = [] \<and>
     Pick_up_tip pipette_p10 \<in> set (trace (snd (pd_run (\<lambda>cell. target_OD)))))"
proof -
  have all: "\<forall>cell \<in> set labels. (\<lambda>cell. target_OD) cell = target_OD"
    by simp
  from target_OD_plan [OF all] obtain w pre med where
    pd: "pd_process_OD_inputs (\<lambda>cell. target_OD) = Inr (w, pre, med)" and
    vol: "\<forall>cell \<in> set labels. pre cell = 150 \<and> med cell = 0"
    by blast
  from vol have none: "\<not> np_any (\<lambda>cell. 0 < med cell)"
    "\<not> np_any (\<lambda>cell. pipette_applicable pipette_p10 (med cell))"
    by (simp_all add: np_any_iff)
  have any: "np_any (\<lambda>cell. med cell < p300_min_transfer_volume)"
    unfolding np_any_iff
  proof (rule bexI)
    show "med A0 < p300_min_transfer_volume"
      using vol A0_label by (simp add: p300_min_transfer_volume_def)
    show "A0 \<in> set labels" by (rule A0_label)
  qed
  from none have "filter (\<lambda>cell. 0 < med cell) labels = []"
    by (simp add: np_any_iff filter_empty_conv)
  then have "filter (is_transfer_from media_wells) (trace (snd (pd_run (\<lambda>cell. target_OD)))) = []"
    by (simp add: pd_run_trace pd pd_load_hardware_simps)
  moreover have "Pick_up_tip pipette_p10 \<in> set (trace (snd (pd_run (\<lambda>cell. target_OD))))"
    using any by (simp add: pd_run_trace pd)
  ultimately show ?thesis
    using pd none by (simp add: target_OD_def)
qed

text \<open>Away from the threshold the three ways of choosing a pipette agree.\<close>

lemma pipettes_agree_off_threshold:
  assumes "0 < v" and "v \<noteq> p300_min_transfer_volume"
  shows "pd_media_pipette v = pd_preculture_pipette v \<and>
         pipette_applicable (pd_media_pipette v) v"
  using assms by (auto simp: pd_media_pipette_def pd_preculture_pipette_def)

text \<open>
  C9 fails at the threshold. For a volume of exactly 30 the medium loop of
  \<^verbatim>\<open>preculture_dilution.py\<close> (\<^verbatim>\<open>>=\<close>) takes the large pipette, its preculture loop
  (\<^verbatim>\<open>>\<close>) the small one, and of the predicates of \<^verbatim>\<open>transfer_to_target\<close> the small
  pipette's holds. Both volumes occur: a reading of \<open>0.0625\<close> plans 30 of medium, a reading
  of \<open>0.25\<close> plans 30 of preculture.
\<close>

theorem threshold_disagreement:
  "pd_media_pipette 30 = pipette_p300 \<and>
   pd_preculture_pipette 30 = pipette_p10 \<and>
   pipette_applicable pipette_p10 30 \<and>
   \<not> pipette_applicable pipette_p300 30 \<and>
   (\<exists>warning pre med.
      pd_process_OD_inputs (\<lambda>cell. 0.0625) = Inr (warning, pre, med) \<and> med A0 = 30) \<and>
   (\<exists>warning pre med.
      pd_process_OD_inputs (\<lambda>cell. 0.25) = Inr (warning, pre, med) \<and> pre A0 = 30)"
  by (simp add: pd_media_pipette_def pd_preculture_pipette_def p300_min_transfer_volume_def
      pd_process_OD_inputs_eq get_transfer_volume_def target_volume_def target_OD_def)

end
